theory Spec2Isabelle
  imports Main "HOL-Library.AList"
begin

section \<open>Data model of the auto-update manager\<close>

text \<open>
  The development embeds \<^verbatim>\<open>src/filebrowser/auto-update-mgr.cpp\<close>: the class
  \<^verbatim>\<open>AutoUpdateManager\<close> with its three members \<^verbatim>\<open>watcher_\<close> (a
  \<^verbatim>\<open>QFileSystemWatcher\<close>), \<^verbatim>\<open>watch_infos_\<close> (a \<^verbatim>\<open>QHash\<close> from local path to
  \<^verbatim>\<open>WatchedFileInfo\<close>) and \<^verbatim>\<open>deleted_files_infos_\<close> (a \<^verbatim>\<open>QQueue\<close>).
  Every slot of the class becomes a function from the state before the call to the state
  after it. Calls on collaborators (logging, the transfer manager, timers, the tray icon,
  emitted signals) are appended to a trace in the order in which the code performs them.
\<close>

text \<open>
  Modelled from the spec: the class \<^verbatim>\<open>Account\<close> (account-mgr.h) is not part of the
  sources; the specification calls it an opaque comparable identity. It is a string here,
  and the default-constructed account is the empty string.
\<close>

type_synonym Account = string

text \<open>
  Modelled from the spec: the declaration of \<^verbatim>\<open>WatchedFileInfo\<close> (auto-update-mgr.h) is
  not part of the sources. The fields are those the code reads and writes: \<^verbatim>\<open>account\<close>,
  \<^verbatim>\<open>repo_id\<close>, \<^verbatim>\<open>path_in_repo\<close> and \<^verbatim>\<open>uploading\<close>.
\<close>

record WatchedFileInfo =
  account :: Account
  repo_id :: string
  path_in_repo :: string
  uploading :: bool

text \<open>The three-argument constructor, as \<^verbatim>\<open>watchCachedFile\<close> calls it: a fresh entry is
  not uploading.\<close>

definition new_WatchedFileInfo :: "Account \<Rightarrow> string \<Rightarrow> string \<Rightarrow> WatchedFileInfo" where
  "new_WatchedFileInfo acc rid p =
     \<lparr>account = acc, repo_id = rid, path_in_repo = p, uploading = False\<rparr>"

text \<open>
  Modelled from the spec: the default constructor, which \<^verbatim>\<open>QHash::operator[]\<close> uses for a
  missing key. Account, repository id and path are empty; the flag is written by the only
  caller that can reach a default entry before it is ever read.
\<close>

definition default_WatchedFileInfo :: WatchedFileInfo where
  "default_WatchedFileInfo =
     \<lparr>account = [], repo_id = [], path_in_repo = [], uploading = False\<rparr>"

text \<open>The sender of the \<^verbatim>\<open>finished(bool)\<close> signal, with the three getters that
  \<^verbatim>\<open>onUpdateTaskFinished\<close> reads.\<close>

record FileUploadTask =
  localFilePath :: string
  repoId :: string
  path :: string

text \<open>The calls on collaborators, in the order of the code.\<close>

datatype Event =
    QDebug string
  | QWarning string
  | CancelAllDownloadTasks
  | CleanCurrentAccountCache
  | StartCachedFilesCleaner
  | SingleShot nat
  | CreateUploadTask Account string string string string bool
  | ConnectFinished string
  | TaskStart string
  | ShowMessage string string string
  | FileUpdated string string

text \<open>
  What the code reads from outside the class during one call: the cache path resolver,
  the file system, the outcome of the watcher's own \<^verbatim>\<open>addPath\<close> and \<^verbatim>\<open>removePath\<close>, the
  current account, whether the build is the macOS one (\<^verbatim>\<open>Q_OS_MAC\<close>), the table and the
  clock of \<^verbatim>\<open>MacImageFilesWorkAround\<close>, and the path helpers of utils/file-utils.h.
\<close>

record Env =
  getLocalCacheFilePath :: "string \<Rightarrow> string \<Rightarrow> string"
  file_exists :: "string \<Rightarrow> bool"
  watcher_addPath :: "string \<Rightarrow> bool"
  watcher_removePath :: "string \<Rightarrow> bool"
  currentAccount :: Account
  q_os_mac :: bool
  images :: "(string \<times> int) list"
  currentMSecsSinceEpoch :: int
  getParentPath :: "string \<Rightarrow> string"
  getBaseName :: "string \<Rightarrow> string"
  fileName :: "string \<Rightarrow> string"

record State =
  watcher_files :: "string list"
  watch_infos :: "(string \<times> WatchedFileInfo) list"
  deleted_files_infos :: "WatchedFileInfo list"
  trace :: "Event list"

definition emit :: "Event \<Rightarrow> State \<Rightarrow> State" where
  "emit e s = s\<lparr>trace := trace s @ [e]\<rparr>"

section \<open>The hash table\<close>

text \<open>
  A \<^verbatim>\<open>QHash\<close> without \<^verbatim>\<open>insertMulti\<close> holds one value per key. It is an association
  list; \<^verbatim>\<open>keys()\<close> lists every key once, \<^verbatim>\<open>remove\<close> deletes the key, assignment through
  \<^verbatim>\<open>operator[]\<close> overwrites, and reading through the non-const \<^verbatim>\<open>operator[]\<close> inserts
  a default-constructed value when the key is missing.
\<close>

definition hash_contains :: "('k \<times> 'v) list \<Rightarrow> 'k \<Rightarrow> bool" where
  "hash_contains h k = (map_of h k \<noteq> None)"

definition hash_keys :: "('k \<times> 'v) list \<Rightarrow> 'k list" where
  "hash_keys h = remdups (map fst h)"

definition hash_remove :: "'k \<Rightarrow> ('k \<times> 'v) list \<Rightarrow> ('k \<times> 'v) list" where
  "hash_remove k h = AList.delete k h"

definition hash_insert :: "'k \<Rightarrow> 'v \<Rightarrow> ('k \<times> 'v) list \<Rightarrow> ('k \<times> 'v) list" where
  "hash_insert k v h = AList.update k v h"

definition hash_index :: "'v \<Rightarrow> ('k \<times> 'v) list \<Rightarrow> 'k \<Rightarrow> 'v \<times> ('k \<times> 'v) list" where
  "hash_index dflt h k =
     (case map_of h k of
        Some v \<Rightarrow> (v, h)
      | None \<Rightarrow> (dflt, AList.update k dflt h))"

section \<open>The helpers of the anonymous namespace\<close>

definition addPath :: "Env \<Rightarrow> string \<Rightarrow> State \<Rightarrow> bool \<times> State" where
  "addPath env file s =
     (if file \<in> set (watcher_files s) then (True, s)
      else
        let ret = watcher_addPath env file;
            s1 = (if ret then s\<lparr>watcher_files := watcher_files s @ [file]\<rparr> else s);
            s2 = (if \<not> ret
                  then emit (QWarning (''[AutoUpdateManager] failed to watch cache file '' @ file)) s1
                  else s1)
        in (ret, s2))"

definition removePath :: "Env \<Rightarrow> string \<Rightarrow> State \<Rightarrow> bool \<times> State" where
  "removePath env file s =
     (if file \<notin> set (watcher_files s) then (True, s)
      else
        let ret = watcher_removePath env file;
            s1 = (if ret then s\<lparr>watcher_files := removeAll file (watcher_files s)\<rparr> else s);
            s2 = (if \<not> ret
                  then emit (QWarning
                         (''[AutoUpdateManager] failed to remove watch on cache file '' @ file)) s1
                  else s1)
        in (ret, s2))"

section \<open>The macOS workaround\<close>

definition isRecentOpenedImage :: "Env \<Rightarrow> string \<Rightarrow> bool" where
  "isRecentOpenedImage env p =
     (let ts = (case map_of (images env) p of Some t \<Rightarrow> t | None \<Rightarrow> 0)
      in if currentMSecsSinceEpoch env < ts + 1000 * 10 then True else False)"

section \<open>The operations of AutoUpdateManager\<close>

text \<open>The \<^verbatim>\<open>Q_FOREACH\<close> over the deferred list in \<^verbatim>\<open>watchCachedFile\<close>: it returns from
  the function at the first entry with the same repository id and path.\<close>

fun in_deferred_list :: "string \<Rightarrow> string \<Rightarrow> WatchedFileInfo list \<Rightarrow> bool" where
  "in_deferred_list rid p [] = False"
| "in_deferred_list rid p (info # rest) =
     (if rid = repo_id info \<and> p = path_in_repo info then True
      else in_deferred_list rid p rest)"

definition watchCachedFile :: "Env \<Rightarrow> Account \<Rightarrow> string \<Rightarrow> string \<Rightarrow> State \<Rightarrow> State" where
  "watchCachedFile env acc rid p s =
     (let local_path = getLocalCacheFilePath env rid p;
          s1 = emit (QDebug (''[AutoUpdateManager] watch cache file '' @ local_path)) s
      in
        if \<not> file_exists env local_path then
          emit (QWarning
            (''[AutoUpdateManager] unable to watch non-existent cache file '' @ local_path)) s1
        else if in_deferred_list rid p (deleted_files_infos s1) then s1
        else
          let s2 = snd (addPath env local_path s1)
          in s2\<lparr>watch_infos :=
                  hash_insert local_path (new_WatchedFileInfo acc rid p) (watch_infos s2)\<rparr>)"

text \<open>One round of the \<^verbatim>\<open>foreach\<close> in \<^verbatim>\<open>cleanCachedFile\<close>.\<close>

definition clean_step ::
  "Account \<Rightarrow> string \<Rightarrow> (string \<times> WatchedFileInfo) list \<Rightarrow> (string \<times> WatchedFileInfo) list"
where
  "clean_step cur_account key h =
     (let (info, h1) = hash_index default_WatchedFileInfo h key
      in if account info = cur_account then hash_remove key h1 else h1)"

definition cleanCachedFile :: "Env \<Rightarrow> State \<Rightarrow> State" where
  "cleanCachedFile env s =
     (let s1 = emit (QDebug ''[AutoUpdateManager] cancel all download tasks'') s;
          s2 = emit CancelAllDownloadTasks s1;
          cur_account = currentAccount env;
          s3 = s2\<lparr>watch_infos :=
                  fold (clean_step cur_account) (hash_keys (watch_infos s2)) (watch_infos s2)\<rparr>;
          s4 = emit CleanCurrentAccountCache s3
      in emit StartCachedFilesCleaner s4)"

definition start :: "Env \<Rightarrow> State \<Rightarrow> State" where
  "start env s = cleanCachedFile env s"

definition removeWatch :: "Env \<Rightarrow> string \<Rightarrow> State \<Rightarrow> State" where
  "removeWatch env local_path s =
     (let s1 = s\<lparr>watch_infos := hash_remove local_path (watch_infos s)\<rparr>
      in snd (removePath env local_path s1))"

definition onFileChanged :: "Env \<Rightarrow> string \<Rightarrow> State \<Rightarrow> State" where
  "onFileChanged env local_path s =
     (let s1 = emit (QDebug (''[AutoUpdateManager] detected cache file '' @ local_path
                              @ '' changed'')) s
      in
        if q_os_mac env \<and> isRecentOpenedImage env local_path then s1
        else
          let s2 = snd (removePath env local_path s1)
          in
            if \<not> hash_contains (watch_infos s2) local_path then s2
            else
              let (info, h) = hash_index default_WatchedFileInfo (watch_infos s2) local_path;
                  s3 = s2\<lparr>watch_infos := h\<rparr>
              in
                if \<not> file_exists env local_path then
                  let s4 = emit (QDebug (''[AutoUpdateManager] detected cache file ''
                                   @ local_path @ '' renamed or removed'')) s3;
                      deferred_info = info;
                      s5 = removeWatch env local_path s4;
                      s6 = emit (SingleShot 5000) s5
                  in s6\<lparr>deleted_files_infos := deleted_files_infos s6 @ [deferred_info]\<rparr>
                else
                  let s4 = emit (CreateUploadTask (account info) (repo_id info)
                                   (getParentPath env (path_in_repo info))
                                   local_path (getBaseName env local_path) True) s3;
                      s5 = emit (ConnectFinished local_path) s4;
                      s6 = emit (QDebug (''[AutoUpdateManager] start uploading new version of file ''
                                   @ local_path)) s5;
                      s7 = emit (TaskStart local_path) s6
                  in s7\<lparr>watch_infos :=
                          hash_insert local_path (info\<lparr>uploading := True\<rparr>) (watch_infos s7)\<rparr>)"

definition onUpdateTaskFinished :: "Env \<Rightarrow> FileUploadTask option \<Rightarrow> bool \<Rightarrow> State \<Rightarrow> State" where
  "onUpdateTaskFinished env sender success s =
     (case sender of
        None \<Rightarrow> s
      | Some task \<Rightarrow>
          let local_path = localFilePath task
          in
            if success then
              let s1 = emit (QDebug (''[AutoUpdateManager] uploaded new version of file ''
                               @ local_path)) s;
                  s2 = emit (ShowMessage ''Upload Success''
                               (''File '' @ [CHR 0x22] @ fileName env local_path
                                 @ [CHR 0x22, CHR 0x0A] @ ''uploaded successfully.'')
                               (repoId task)) s1;
                  s3 = emit (FileUpdated (repoId task) (path task)) s2;
                  s4 = snd (addPath env local_path s3);
                  (info, h) = hash_index default_WatchedFileInfo (watch_infos s4) local_path
              in s4\<lparr>watch_infos := hash_insert local_path (info\<lparr>uploading := False\<rparr>) h\<rparr>
            else
              let s1 = emit (QWarning (''[AutoUpdateManager] failed to upload new version of file ''
                               @ local_path)) s;
                  s2 = emit (ShowMessage ''Upload Failure''
                               (''File '' @ [CHR 0x22] @ fileName env local_path
                                 @ [CHR 0x22, CHR 0x0A] @ ''failed to upload.'')
                               (repoId task)) s1
              in s2\<lparr>watch_infos := hash_remove local_path (watch_infos s2)\<rparr>)"

definition checkFileRecreated :: "Env \<Rightarrow> State \<Rightarrow> State" where
  "checkFileRecreated env s =
     (case deleted_files_infos s of
        [] \<Rightarrow> s
      | info # rest \<Rightarrow>
          let s1 = s\<lparr>deleted_files_infos := rest\<rparr>;
              p = getLocalCacheFilePath env (repo_id info) (path_in_repo info)
          in
            if file_exists env p then
              let s2 = emit (QDebug (''[AutoUpdateManager] detected recreated file '' @ p)) s1;
                  s3 = snd (addPath env p s2);
                  s4 = s3\<lparr>watch_infos := hash_insert p info (watch_infos s3)\<rparr>
              in onFileChanged env p s4
            else s1)"

section \<open>Sequences of calls\<close>

text \<open>
  The slots are called from the event loop one after the other, each with the outside
  world as it is at that moment. A history of the manager is a list of calls, run from
  the state of a freshly constructed manager.
\<close>

datatype Call =
    WatchCachedFile Env Account string string
  | CleanCachedFile Env
  | OnFileChanged Env string
  | OnUpdateTaskFinished Env "FileUploadTask option" bool
  | RemoveWatch Env string
  | CheckFileRecreated Env

fun step :: "Call \<Rightarrow> State \<Rightarrow> State" where
  "step (WatchCachedFile env acc rid p) s = watchCachedFile env acc rid p s"
| "step (CleanCachedFile env) s = cleanCachedFile env s"
| "step (OnFileChanged env lp) s = onFileChanged env lp s"
| "step (OnUpdateTaskFinished env sender success) s = onUpdateTaskFinished env sender success s"
| "step (RemoveWatch env lp) s = removeWatch env lp s"
| "step (CheckFileRecreated env) s = checkFileRecreated env s"

fun run :: "Call list \<Rightarrow> State \<Rightarrow> State" where
  "run [] s = s"
| "run (c # cs) s = run cs (step c s)"

definition empty_State :: State where
  "empty_State = \<lparr>watcher_files = [], watch_infos = [], deleted_files_infos = [], trace = []\<rparr>"

text \<open>
  A history uses one cache path resolver when every call that resolves a path
  (\<^verbatim>\<open>watchCachedFile\<close> and \<^verbatim>\<open>checkFileRecreated\<close>) does so with that resolver.
\<close>

fun uses_resolver :: "(string \<Rightarrow> string \<Rightarrow> string) \<Rightarrow> Call \<Rightarrow> bool" where
  "uses_resolver lcp (WatchCachedFile env acc rid p) = (getLocalCacheFilePath env = lcp)"
| "uses_resolver lcp (CheckFileRecreated env) = (getLocalCacheFilePath env = lcp)"
| "uses_resolver lcp c = True"

definition same_pair :: "WatchedFileInfo \<Rightarrow> WatchedFileInfo \<Rightarrow> bool" where
  "same_pair i d = (repo_id i = repo_id d \<and> path_in_repo i = path_in_repo d)"

text \<open>Some repository id and path have an entry of the registry and an entry of the
  deferred list at once.\<close>

definition pair_in_both :: "State \<Rightarrow> bool" where
  "pair_in_both s =
     (\<exists>(k, i) \<in> set (watch_infos s). map_of (watch_infos s) k = Some i \<and>
        (\<exists>d \<in> set (deleted_files_infos s). same_pair i d))"

text \<open>The repository id and path of a default-constructed entry.\<close>

definition empty_pair :: "WatchedFileInfo \<Rightarrow> bool" where
  "empty_pair i = (repo_id i = [] \<and> path_in_repo i = [])"

text \<open>
  The invariant of the registry and the deferred list: every entry of the registry is
  stored under the cache path of its own repository id and path, or has the empty
  repository id and path; an entry of the registry that has the repository id and path
  of a deferred one has the empty ones; and the deferred list holds no repository id
  and path twice, the empty ones apart.
\<close>

definition registry_inv :: "(string \<Rightarrow> string \<Rightarrow> string) \<Rightarrow> State \<Rightarrow> bool" where
  "registry_inv lcp s =
     ((\<forall>k i. map_of (watch_infos s) k = Some i \<longrightarrow>
         k = lcp (repo_id i) (path_in_repo i) \<or> empty_pair i) \<and>
      (\<forall>k i d. map_of (watch_infos s) k = Some i \<longrightarrow> d \<in> set (deleted_files_infos s) \<longrightarrow>
         same_pair i d \<longrightarrow> empty_pair i) \<and>
      distinct (filter (\<lambda>q. q \<noteq> ([], []))
        (map (\<lambda>d. (repo_id d, path_in_repo d)) (deleted_files_infos s))))"

text \<open>The state in which \<^verbatim>\<open>checkFileRecreated\<close> calls \<^verbatim>\<open>onFileChanged\<close>, when the file
  of the dequeued entry exists again.\<close>

definition reregistered :: "Env \<Rightarrow> WatchedFileInfo \<Rightarrow> WatchedFileInfo list \<Rightarrow> State \<Rightarrow> State" where
  "reregistered env info rest s =
     (let p = getLocalCacheFilePath env (repo_id info) (path_in_repo info);
          s3 = snd (addPath env p
                 (emit (QDebug (''[AutoUpdateManager] detected recreated file '' @ p))
                    (s\<lparr>deleted_files_infos := rest\<rparr>)))
      in s3\<lparr>watch_infos := hash_insert p info (watch_infos s3)\<rparr>)"

section \<open>Concrete worlds and states\<close>

text \<open>A cache below \<^verbatim>\<open>/cache\<close>, two users, and the files \<^verbatim>\<open>a.txt\<close>, \<^verbatim>\<open>b.txt\<close> and
  \<^verbatim>\<open>c.txt\<close>, used to run the operations on concrete inputs.\<close>

definition cache_path :: "string \<Rightarrow> string \<Rightarrow> string" where
  "cache_path rid p = ''/cache/'' @ rid @ p"

definition base_name :: "string \<Rightarrow> string" where
  "base_name p = rev (takeWhile (\<lambda>c. c \<noteq> CHR ''/'') (rev p))"

definition parent_path :: "string \<Rightarrow> string" where
  "parent_path p = rev (dropWhile (\<lambda>c. c \<noteq> CHR ''/'') (rev p))"

definition desktop_env :: Env where
  "desktop_env =
     \<lparr>getLocalCacheFilePath = cache_path,
      file_exists = (\<lambda>f. True),
      watcher_addPath = (\<lambda>f. True),
      watcher_removePath = (\<lambda>f. True),
      currentAccount = ''alice'',
      q_os_mac = False,
      images = [],
      currentMSecsSinceEpoch = 100000,
      getParentPath = parent_path,
      getBaseName = base_name,
      fileName = base_name\<rparr>"

definition mac_env :: Env where
  "mac_env = desktop_env\<lparr>q_os_mac := True, images := [(''/cache/r1/a.txt'', 95000)]\<rparr>"

definition gone_env :: Env where
  "gone_env = desktop_env\<lparr>file_exists := (\<lambda>f. f \<noteq> ''/cache/r1/a.txt'')\<rparr>"

definition info_a :: WatchedFileInfo where
  "info_a = new_WatchedFileInfo ''alice'' ''r1'' ''/a.txt''"

definition info_b :: WatchedFileInfo where
  "info_b = new_WatchedFileInfo ''bob'' ''r2'' ''/b.txt''"

definition watching_State :: State where
  "watching_State =
     \<lparr>watcher_files = [''/cache/r1/a.txt'', ''/cache/r2/b.txt''],
      watch_infos = [(''/cache/r1/a.txt'', info_a), (''/cache/r2/b.txt'', info_b)],
      deleted_files_infos = [],
      trace = []\<rparr>"

definition uploading_State :: State where
  "uploading_State =
     \<lparr>watcher_files = [''/cache/r2/b.txt''],
      watch_infos = [(''/cache/r1/a.txt'', info_a\<lparr>uploading := True\<rparr>),
                     (''/cache/r2/b.txt'', info_b)],
      deleted_files_infos = [],
      trace = []\<rparr>"

definition deferred_State :: State where
  "deferred_State =
     \<lparr>watcher_files = [''/cache/r2/b.txt''],
      watch_infos = [(''/cache/r2/b.txt'', info_b)],
      deleted_files_infos = [info_a],
      trace = []\<rparr>"

definition task_a :: FileUploadTask where
  "task_a = \<lparr>localFilePath = ''/cache/r1/a.txt'', repoId = ''r1'', path = ''/''\<rparr>"

definition task_c :: FileUploadTask where
  "task_c = \<lparr>localFilePath = ''/cache/r1/c.txt'', repoId = ''r1'', path = ''/''\<rparr>"

text \<open>Two uploads are in flight when the account is cleaned; both succeed afterwards;
  then the first file disappears.\<close>

definition stale_success_calls :: "Call list" where
  "stale_success_calls =
     [WatchCachedFile desktop_env ''alice'' ''r1'' ''/a.txt'',
      WatchCachedFile desktop_env ''alice'' ''r1'' ''/c.txt'',
      OnFileChanged desktop_env ''/cache/r1/a.txt'',
      OnFileChanged desktop_env ''/cache/r1/c.txt'',
      CleanCachedFile desktop_env,
      OnUpdateTaskFinished desktop_env (Some task_a) True,
      OnUpdateTaskFinished desktop_env (Some task_c) True,
      OnFileChanged gone_env ''/cache/r1/a.txt'']"

text \<open>The macOS build, with a picture that was opened four seconds ago.\<close>

definition info_pic :: WatchedFileInfo where
  "info_pic = new_WatchedFileInfo ''alice'' ''r1'' ''/pic.png''"

definition mac_image_env :: Env where
  "mac_image_env =
     desktop_env\<lparr>q_os_mac := True,
                 images := [(''/cache/r1/pic.png'', 1700000000000)],
                 currentMSecsSinceEpoch := 1700000004000\<rparr>"

definition mac_image_gone_env :: Env where
  "mac_image_gone_env = mac_image_env\<lparr>file_exists := (\<lambda>f. f \<noteq> ''/cache/r1/pic.png'')\<rparr>"

definition picture_State :: State where
  "picture_State =
     \<lparr>watcher_files = [''/cache/r1/pic.png''],
      watch_infos = [(''/cache/r1/pic.png'', info_pic)],
      deleted_files_infos = [],
      trace = []\<rparr>"

definition picture_deferred_State :: State where
  "picture_deferred_State =
     \<lparr>watcher_files = [],
      watch_infos = [],
      deleted_files_infos = [info_pic],
      trace = []\<rparr>"

text \<open>A watcher that refuses every request.\<close>

definition refusing_env :: Env where
  "refusing_env = desktop_env\<lparr>watcher_addPath := (\<lambda>f. False), watcher_removePath := (\<lambda>f. False)\<rparr>"

definition refusing_gone_env :: Env where
  "refusing_gone_env = refusing_env\<lparr>file_exists := (\<lambda>f. f \<noteq> ''/cache/r1/a.txt'')\<rparr>"

section \<open>Facts about the helpers\<close>

text \<open>The defining equations, collected for running the model on concrete inputs.\<close>

lemmas model_defs = watchCachedFile_def cleanCachedFile_def onFileChanged_def
  onUpdateTaskFinished_def removeWatch_def checkFileRecreated_def addPath_def removePath_def
  isRecentOpenedImage_def clean_step_def hash_index_def hash_insert_def hash_remove_def
  hash_keys_def hash_contains_def emit_def default_WatchedFileInfo_def Let_def

lemmas fixture_defs = cache_path_def base_name_def parent_path_def desktop_env_def mac_env_def
  gone_env_def empty_State_def info_a_def info_b_def watching_State_def uploading_State_def
  deferred_State_def task_a_def task_c_def stale_success_calls_def new_WatchedFileInfo_def
  info_pic_def mac_image_env_def mac_image_gone_env_def picture_State_def
  picture_deferred_State_def refusing_env_def refusing_gone_env_def

lemma emit_fields [simp]:
  "watcher_files (emit e s) = watcher_files s"
  "watch_infos (emit e s) = watch_infos s"
  "deleted_files_infos (emit e s) = deleted_files_infos s"
  "trace (emit e s) = trace s @ [e]"
  by (simp_all add: emit_def)

lemma addPath_frame [simp]:
  "watch_infos (snd (addPath env f s)) = watch_infos s"
  "deleted_files_infos (snd (addPath env f s)) = deleted_files_infos s"
  by (simp_all add: addPath_def Let_def)

lemma removePath_frame [simp]:
  "watch_infos (snd (removePath env f s)) = watch_infos s"
  "deleted_files_infos (snd (removePath env f s)) = deleted_files_infos s"
  by (simp_all add: removePath_def Let_def)

lemma addPath_files:
  "watcher_files (snd (addPath env f s)) =
     (if f \<in> set (watcher_files s) \<or> \<not> watcher_addPath env f then watcher_files s
      else watcher_files s @ [f])"
  by (simp add: addPath_def Let_def)

lemma addPath_trace:
  "trace (snd (addPath env f s)) =
     (if f \<in> set (watcher_files s) \<or> watcher_addPath env f then trace s
      else trace s @ [QWarning (''[AutoUpdateManager] failed to watch cache file '' @ f)])"
  by (simp add: addPath_def Let_def)

lemma removePath_files:
  "watcher_files (snd (removePath env f s)) =
     (if f \<in> set (watcher_files s) \<and> watcher_removePath env f
      then removeAll f (watcher_files s) else watcher_files s)"
  by (simp add: removePath_def Let_def)

lemma removePath_trace:
  "trace (snd (removePath env f s)) =
     (if f \<in> set (watcher_files s) \<and> \<not> watcher_removePath env f
      then trace s @ [QWarning (''[AutoUpdateManager] failed to remove watch on cache file '' @ f)]
      else trace s)"
  by (simp add: removePath_def Let_def)

lemma map_of_hash_insert [simp]: "map_of (hash_insert k v h) = (map_of h)(k \<mapsto> v)"
  by (simp add: hash_insert_def update_conv')

lemma map_of_hash_remove [simp]: "map_of (hash_remove k h) = (map_of h)(k := None)"
  by (simp add: hash_remove_def delete_conv')

lemma hash_index_present: "map_of h k = Some v \<Longrightarrow> hash_index d h k = (v, h)"
  by (simp add: hash_index_def)

lemma hash_keys_props: "distinct (hash_keys h)" "set (hash_keys h) = dom (map_of h)"
  by (simp_all add: hash_keys_def dom_map_of_conv_image_fst)

lemma in_deferred_list_iff:
  "in_deferred_list rid p ds \<longleftrightarrow> (\<exists>d \<in> set ds. repo_id d = rid \<and> path_in_repo d = p)"
  by (induction ds) auto

section \<open>Facts about the operations\<close>

subsection \<open>cleanCachedFile\<close>

text \<open>Every key of the snapshot is still in the table when its round comes, so the
  non-const \<^verbatim>\<open>operator[]\<close> of the loop never inserts.\<close>

lemma clean_step_present:
  "map_of h k = Some i \<Longrightarrow>
   clean_step cur k h = (if account i = cur then hash_remove k h else h)"
  by (simp add: clean_step_def hash_index_present)

lemma fold_clean_step:
  "distinct ks \<Longrightarrow> set ks \<subseteq> dom (map_of h) \<Longrightarrow>
   map_of (fold (clean_step cur) ks h) k =
     (case map_of h k of
        None \<Rightarrow> None
      | Some i \<Rightarrow> if k \<in> set ks \<and> account i = cur then None else Some i)"
proof (induction ks arbitrary: h)
  case Nil
  then show ?case by (simp split: option.split)
next
  case (Cons x xs)
  from Cons.prems obtain ix where ix: "map_of h x = Some ix" by auto
  let ?h' = "clean_step cur x h"
  have h': "?h' = (if account ix = cur then hash_remove x h else h)"
    using ix by (rule clean_step_present)
  have sub: "set xs \<subseteq> dom (map_of ?h')"
    using Cons.prems by (auto simp: h')
  have "map_of (fold (clean_step cur) xs ?h') k =
     (case map_of ?h' k of
        None \<Rightarrow> None
      | Some i \<Rightarrow> if k \<in> set xs \<and> account i = cur then None else Some i)"
    using Cons.prems sub by (intro Cons.IH) simp_all
  then show ?case
    using ix Cons.prems by (auto simp: h' split: option.splits)
qed

lemma cleanCachedFile_map_of:
  "map_of (watch_infos (cleanCachedFile env s)) k =
     (case map_of (watch_infos s) k of
        None \<Rightarrow> None
      | Some i \<Rightarrow> if account i = currentAccount env then None else Some i)"
proof -
  have "map_of (fold (clean_step (currentAccount env)) (hash_keys (watch_infos s)) (watch_infos s)) k =
     (case map_of (watch_infos s) k of
        None \<Rightarrow> None
      | Some i \<Rightarrow> if k \<in> set (hash_keys (watch_infos s)) \<and> account i = currentAccount env
                  then None else Some i)"
    by (rule fold_clean_step) (simp_all add: hash_keys_props)
  then show ?thesis
    by (auto simp: cleanCachedFile_def Let_def hash_keys_props split: option.splits)
qed

lemma cleanCachedFile_frame:
  "watcher_files (cleanCachedFile env s) = watcher_files s"
  "deleted_files_infos (cleanCachedFile env s) = deleted_files_infos s"
  "trace (cleanCachedFile env s) = trace s @
     [QDebug ''[AutoUpdateManager] cancel all download tasks'', CancelAllDownloadTasks,
      CleanCurrentAccountCache, StartCachedFilesCleaner]"
  by (simp_all add: cleanCachedFile_def Let_def)

subsection \<open>watchCachedFile and removeWatch\<close>

lemma watchCachedFile_fields:
  "map_of (watch_infos (watchCachedFile env acc rid p s)) =
     (if file_exists env (getLocalCacheFilePath env rid p) \<and>
         \<not> in_deferred_list rid p (deleted_files_infos s)
      then (map_of (watch_infos s))(getLocalCacheFilePath env rid p \<mapsto> new_WatchedFileInfo acc rid p)
      else map_of (watch_infos s))"
  "deleted_files_infos (watchCachedFile env acc rid p s) = deleted_files_infos s"
  by (simp_all add: watchCachedFile_def Let_def)

lemma removeWatch_fields:
  "map_of (watch_infos (removeWatch env lp s)) = (map_of (watch_infos s))(lp := None)"
  "deleted_files_infos (removeWatch env lp s) = deleted_files_infos s"
  "watcher_files (removeWatch env lp s) =
     (if lp \<in> set (watcher_files s) \<and> watcher_removePath env lp
      then removeAll lp (watcher_files s) else watcher_files s)"
  "trace (removeWatch env lp s) =
     (if lp \<in> set (watcher_files s) \<and> \<not> watcher_removePath env lp
      then trace s @ [QWarning (''[AutoUpdateManager] failed to remove watch on cache file '' @ lp)]
      else trace s)"
  by (simp_all add: removeWatch_def Let_def removePath_files removePath_trace)

subsection \<open>onFileChanged, branch by branch\<close>

lemma onFileChanged_suppressed:
  "q_os_mac env \<Longrightarrow> isRecentOpenedImage env lp \<Longrightarrow>
   onFileChanged env lp s =
     emit (QDebug (''[AutoUpdateManager] detected cache file '' @ lp @ '' changed'')) s"
  by (simp add: onFileChanged_def Let_def)

lemma onFileChanged_unregistered:
  "\<not> (q_os_mac env \<and> isRecentOpenedImage env lp) \<Longrightarrow> map_of (watch_infos s) lp = None \<Longrightarrow>
   onFileChanged env lp s =
     snd (removePath env lp
       (emit (QDebug (''[AutoUpdateManager] detected cache file '' @ lp @ '' changed'')) s))"
  by (auto simp: onFileChanged_def Let_def hash_contains_def)

lemma onFileChanged_missing:
  assumes "\<not> (q_os_mac env \<and> isRecentOpenedImage env lp)"
    and "map_of (watch_infos s) lp = Some info"
    and "\<not> file_exists env lp"
  shows "map_of (watch_infos (onFileChanged env lp s)) = (map_of (watch_infos s))(lp := None)"
    and "watcher_files (onFileChanged env lp s) =
          (if lp \<in> set (watcher_files s) \<and> \<not> watcher_removePath env lp then watcher_files s
           else removeAll lp (watcher_files s))"
    and "deleted_files_infos (onFileChanged env lp s) = deleted_files_infos s @ [info]"
    and "trace (onFileChanged env lp s) = trace s @
          [QDebug (''[AutoUpdateManager] detected cache file '' @ lp @ '' changed'')] @
          (if lp \<in> set (watcher_files s) \<and> \<not> watcher_removePath env lp
           then [QWarning (''[AutoUpdateManager] failed to remove watch on cache file '' @ lp)]
           else []) @
          [QDebug (''[AutoUpdateManager] detected cache file '' @ lp @ '' renamed or removed'')] @
          (if lp \<in> set (watcher_files s) \<and> \<not> watcher_removePath env lp
           then [QWarning (''[AutoUpdateManager] failed to remove watch on cache file '' @ lp)]
           else []) @
          [SingleShot 5000]"
  using assms
  by (auto simp: onFileChanged_def Let_def hash_contains_def hash_index_present
      removeWatch_fields removePath_files removePath_trace)

lemma onFileChanged_upload_trace:
  assumes "\<not> (q_os_mac env \<and> isRecentOpenedImage env lp)"
    and "map_of (watch_infos s) lp = Some info"
    and "file_exists env lp"
  shows "trace (onFileChanged env lp s) =
           trace (snd (removePath env lp
             (emit (QDebug (''[AutoUpdateManager] detected cache file '' @ lp @ '' changed'')) s))) @
          [CreateUploadTask (account info) (repo_id info) (getParentPath env (path_in_repo info))
             lp (getBaseName env lp) True,
           ConnectFinished lp,
           QDebug (''[AutoUpdateManager] start uploading new version of file '' @ lp),
           TaskStart lp]"
  using assms
  by (auto simp: onFileChanged_def Let_def hash_contains_def hash_index_present)

lemma onFileChanged_registry:
  "map_of (watch_infos (onFileChanged env lp s)) =
     (if q_os_mac env \<and> isRecentOpenedImage env lp then map_of (watch_infos s)
      else case map_of (watch_infos s) lp of
        None \<Rightarrow> map_of (watch_infos s)
      | Some info \<Rightarrow>
          if file_exists env lp then (map_of (watch_infos s))(lp \<mapsto> info\<lparr>uploading := True\<rparr>)
          else (map_of (watch_infos s))(lp := None))"
  by (auto simp: onFileChanged_def Let_def hash_contains_def hash_index_present
      removeWatch_fields split: option.splits)

lemma onFileChanged_deferred:
  "deleted_files_infos (onFileChanged env lp s) =
     (if q_os_mac env \<and> isRecentOpenedImage env lp then deleted_files_infos s
      else case map_of (watch_infos s) lp of
        None \<Rightarrow> deleted_files_infos s
      | Some info \<Rightarrow>
          if file_exists env lp then deleted_files_infos s
          else deleted_files_infos s @ [info])"
  by (auto simp: onFileChanged_def Let_def hash_contains_def hash_index_present
      removeWatch_fields split: option.splits)

lemma onFileChanged_watcher:
  "watcher_files (onFileChanged env lp s) =
     (if q_os_mac env \<and> isRecentOpenedImage env lp then watcher_files s
      else watcher_files (snd (removePath env lp s)))"
  by (auto simp: onFileChanged_def Let_def hash_contains_def hash_index_def
      removeWatch_fields removePath_files split: option.splits)

subsection \<open>onUpdateTaskFinished\<close>

lemma onUpdateTaskFinished_registry:
  "map_of (watch_infos (onUpdateTaskFinished env sender success s)) =
     (case sender of
        None \<Rightarrow> map_of (watch_infos s)
      | Some task \<Rightarrow>
          if success then
            (map_of (watch_infos s))(localFilePath task \<mapsto>
               (case map_of (watch_infos s) (localFilePath task) of
                  Some i \<Rightarrow> i | None \<Rightarrow> default_WatchedFileInfo)\<lparr>uploading := False\<rparr>)
          else (map_of (watch_infos s))(localFilePath task := None))"
  by (auto simp: onUpdateTaskFinished_def Let_def hash_index_def update_conv'
      split: option.splits prod.splits)

lemma onUpdateTaskFinished_deferred:
  "deleted_files_infos (onUpdateTaskFinished env sender success s) = deleted_files_infos s"
  by (auto simp: onUpdateTaskFinished_def Let_def split: option.splits prod.splits)

lemma onUpdateTaskFinished_success:
  "watcher_files (onUpdateTaskFinished env (Some task) True s) =
     watcher_files (snd (addPath env (localFilePath task) s))"
  "trace (onUpdateTaskFinished env (Some task) True s) =
     trace s @
     [QDebug (''[AutoUpdateManager] uploaded new version of file '' @ localFilePath task),
      ShowMessage ''Upload Success''
        (''File '' @ [CHR 0x22] @ fileName env (localFilePath task)
          @ [CHR 0x22, CHR 0x0A] @ ''uploaded successfully.'') (repoId task),
      FileUpdated (repoId task) (path task)] @
     (if localFilePath task \<in> set (watcher_files s) \<or> watcher_addPath env (localFilePath task)
      then []
      else [QWarning (''[AutoUpdateManager] failed to watch cache file '' @ localFilePath task)])"
  by (simp_all add: onUpdateTaskFinished_def Let_def addPath_files addPath_trace
      split: prod.splits)

lemma onUpdateTaskFinished_failure:
  "watcher_files (onUpdateTaskFinished env (Some task) False s) = watcher_files s"
  "trace (onUpdateTaskFinished env (Some task) False s) =
     trace s @
     [QWarning (''[AutoUpdateManager] failed to upload new version of file '' @ localFilePath task),
      ShowMessage ''Upload Failure''
        (''File '' @ [CHR 0x22] @ fileName env (localFilePath task)
          @ [CHR 0x22, CHR 0x0A] @ ''failed to upload.'') (repoId task)]"
  by (simp_all add: onUpdateTaskFinished_def Let_def)

subsection \<open>checkFileRecreated\<close>

lemma checkFileRecreated_cases:
  "deleted_files_infos s = [] \<Longrightarrow> checkFileRecreated env s = s"
  "deleted_files_infos s = info # rest \<Longrightarrow>
   \<not> file_exists env (getLocalCacheFilePath env (repo_id info) (path_in_repo info)) \<Longrightarrow>
   checkFileRecreated env s = s\<lparr>deleted_files_infos := rest\<rparr>"
  "deleted_files_infos s = info # rest \<Longrightarrow>
   file_exists env (getLocalCacheFilePath env (repo_id info) (path_in_repo info)) \<Longrightarrow>
   checkFileRecreated env s =
     onFileChanged env (getLocalCacheFilePath env (repo_id info) (path_in_repo info))
       (reregistered env info rest s)"
  by (simp_all add: checkFileRecreated_def reregistered_def Let_def)

lemma reregistered_fields:
  "map_of (watch_infos (reregistered env info rest s)) =
     (map_of (watch_infos s))
       (getLocalCacheFilePath env (repo_id info) (path_in_repo info) \<mapsto> info)"
  "deleted_files_infos (reregistered env info rest s) = rest"
  "watcher_files (reregistered env info rest s) =
     (let p = getLocalCacheFilePath env (repo_id info) (path_in_repo info)
      in if p \<in> set (watcher_files s) \<or> \<not> watcher_addPath env p then watcher_files s
         else watcher_files s @ [p])"
  "trace (reregistered env info rest s) =
     (let p = getLocalCacheFilePath env (repo_id info) (path_in_repo info)
      in trace s @ [QDebug (''[AutoUpdateManager] detected recreated file '' @ p)] @
         (if p \<in> set (watcher_files s) \<or> watcher_addPath env p then []
          else [QWarning (''[AutoUpdateManager] failed to watch cache file '' @ p)]))"
  by (simp_all add: reregistered_def Let_def addPath_files addPath_trace)

section \<open>The invariant of the registry and the deferred list\<close>

lemma pair_in_both_iff:
  "pair_in_both s \<longleftrightarrow>
     (\<exists>k i d. map_of (watch_infos s) k = Some i \<and> d \<in> set (deleted_files_infos s) \<and> same_pair i d)"
  by (auto simp: pair_in_both_def dest: map_of_SomeD)

lemma empty_State_inv: "registry_inv lcp empty_State"
  by (simp add: registry_inv_def empty_State_def)

lemma watchCachedFile_inv:
  assumes "registry_inv lcp s" "getLocalCacheFilePath env = lcp"
  shows "registry_inv lcp (watchCachedFile env acc rid p s)"
  using assms
  by (auto simp: registry_inv_def watchCachedFile_fields in_deferred_list_iff same_pair_def
      new_WatchedFileInfo_def split: if_splits)

lemma cleanCachedFile_inv:
  assumes "registry_inv lcp s"
  shows "registry_inv lcp (cleanCachedFile env s)"
  using assms
  by (auto simp: registry_inv_def cleanCachedFile_map_of cleanCachedFile_frame
      split: option.splits if_splits)

lemma removeWatch_inv:
  assumes "registry_inv lcp s"
  shows "registry_inv lcp (removeWatch env lp s)"
  using assms
  by (auto simp: registry_inv_def removeWatch_fields split: if_splits)

text \<open>When an entry with a repository id and path of its own moves to the deferred list,
  no other entry of the registry has them: that entry would be stored under the same
  cache path.\<close>

lemma onFileChanged_inv:
  assumes "registry_inv lcp s"
  shows "registry_inv lcp (onFileChanged env lp s)"
proof (cases "q_os_mac env \<and> isRecentOpenedImage env lp")
  case True
  then show ?thesis
    using assms by (simp add: registry_inv_def onFileChanged_registry onFileChanged_deferred)
next
  case False
  show ?thesis
  proof (cases "map_of (watch_infos s) lp")
    case None
    then show ?thesis
      using assms False by (simp add: registry_inv_def onFileChanged_registry onFileChanged_deferred)
  next
    case (Some info)
    show ?thesis
    proof (cases "file_exists env lp")
      case True
      then show ?thesis
        using assms False Some
        by (auto simp: registry_inv_def onFileChanged_registry onFileChanged_deferred same_pair_def
            empty_pair_def)
    next
      case gone: False
      have others: "empty_pair i"
        if "map_of (watch_infos s) k = Some i" "k \<noteq> lp" "same_pair i info" for k i
      proof (rule ccontr)
        assume ne: "\<not> empty_pair i"
        then have "k = lcp (repo_id i) (path_in_repo i)"
          using assms that(1) by (auto simp: registry_inv_def)
        moreover have "\<not> empty_pair info"
          using ne that(3) by (simp add: same_pair_def empty_pair_def)
        then have "lp = lcp (repo_id info) (path_in_repo info)"
          using assms Some by (auto simp: registry_inv_def)
        ultimately show False using that(2,3) by (simp add: same_pair_def)
      qed
      have fresh: "(repo_id info, path_in_repo info) \<notin>
          (\<lambda>d. (repo_id d, path_in_repo d)) ` set (deleted_files_infos s)"
        if "\<not> empty_pair info"
        using assms Some that by (auto simp: registry_inv_def same_pair_def)
      have reg: "map_of (watch_infos (onFileChanged env lp s)) = (map_of (watch_infos s))(lp := None)"
        and que: "deleted_files_infos (onFileChanged env lp s) = deleted_files_infos s @ [info]"
        using False Some gone by (simp_all add: onFileChanged_missing)
      have j: "k = lcp (repo_id i) (path_in_repo i) \<or> empty_pair i"
        if "map_of (watch_infos (onFileChanged env lp s)) k = Some i" for k i
        using assms that by (auto simp: reg registry_inv_def split: if_splits)
      have d: "empty_pair i"
        if "map_of (watch_infos (onFileChanged env lp s)) k = Some i"
          "d \<in> set (deleted_files_infos (onFileChanged env lp s))" "same_pair i d" for k i d
      proof (cases "d = info")
        case True
        then show ?thesis using that others by (auto simp: reg split: if_splits)
      next
        case False
        then show ?thesis
          using assms that by (auto simp: reg que registry_inv_def split: if_splits)
      qed
      have q: "distinct (filter (\<lambda>q. q \<noteq> ([], []))
          (map (\<lambda>d. (repo_id d, path_in_repo d)) (deleted_files_infos (onFileChanged env lp s))))"
        using assms fresh by (auto simp: que registry_inv_def empty_pair_def)
      show ?thesis
        unfolding registry_inv_def using j d q by blast
    qed
  qed
qed

lemma onUpdateTaskFinished_inv:
  assumes "registry_inv lcp s"
  shows "registry_inv lcp (onUpdateTaskFinished env sender success s)"
  using assms
  by (auto simp: registry_inv_def onUpdateTaskFinished_registry onUpdateTaskFinished_deferred
      same_pair_def empty_pair_def default_WatchedFileInfo_def
      split: option.splits if_splits)

lemma reregistered_inv:
  assumes "registry_inv lcp s" and "getLocalCacheFilePath env = lcp"
    and "deleted_files_infos s = info # rest"
  shows "registry_inv lcp (reregistered env info rest s)"
proof -
  have twice: "empty_pair info" if "d \<in> set rest" "same_pair info d" for d
  proof (rule ccontr)
    assume "\<not> empty_pair info"
    then have "(repo_id info, path_in_repo info) \<notin>
        set (filter (\<lambda>q. q \<noteq> ([], [])) (map (\<lambda>d. (repo_id d, path_in_repo d)) rest))"
      using assms(1,3) by (auto simp: registry_inv_def empty_pair_def)
    then show False
      using that \<open>\<not> empty_pair info\<close> by (auto simp: same_pair_def empty_pair_def)
  qed
  have q: "distinct (filter (\<lambda>q. q \<noteq> ([], [])) (map (\<lambda>d. (repo_id d, path_in_repo d)) rest))"
    using assms(1,3) by (auto simp: registry_inv_def split: if_splits)
  show ?thesis
    unfolding registry_inv_def
    using assms twice q
    by (auto simp: registry_inv_def reregistered_fields split: if_splits)
qed

lemma checkFileRecreated_inv:
  assumes "registry_inv lcp s" and "getLocalCacheFilePath env = lcp"
  shows "registry_inv lcp (checkFileRecreated env s)"
proof (cases "deleted_files_infos s")
  case Nil
  then show ?thesis using assms(1) by (simp add: checkFileRecreated_cases)
next
  case (Cons info rest)
  show ?thesis
  proof (cases "file_exists env (getLocalCacheFilePath env (repo_id info) (path_in_repo info))")
    case False
    then show ?thesis
      using assms(1) Cons by (auto simp: checkFileRecreated_cases registry_inv_def split: if_splits)
  next
    case True
    then show ?thesis
      using Cons reregistered_inv [OF assms Cons]
      by (simp add: checkFileRecreated_cases onFileChanged_inv)
  qed
qed

lemma step_inv: "uses_resolver lcp c \<Longrightarrow> registry_inv lcp s \<Longrightarrow> registry_inv lcp (step c s)"
  by (cases c)
    (simp_all add: watchCachedFile_inv cleanCachedFile_inv onFileChanged_inv removeWatch_inv
      checkFileRecreated_inv onUpdateTaskFinished_inv)

lemma run_inv:
  "list_all (uses_resolver lcp) cs \<Longrightarrow> registry_inv lcp s \<Longrightarrow> registry_inv lcp (run cs s)"
  by (induction cs arbitrary: s) (simp_all add: step_inv)

text \<open>
  In every history of a freshly constructed manager with one resolver, whatever the
  callbacks, a repository id and path that has a registry entry and a deferred entry at
  once is the empty one of a default-constructed entry.
\<close>

lemma pair_in_both_is_empty:
  assumes "list_all (uses_resolver lcp) calls"
    and "map_of (watch_infos (run calls empty_State)) k = Some i"
    and "d \<in> set (deleted_files_infos (run calls empty_State))"
    and "same_pair i d"
  shows "repo_id i = [] \<and> path_in_repo i = []"
  using run_inv [OF assms(1) empty_State_inv] assms(2-4)
  by (auto simp: registry_inv_def empty_pair_def)

text \<open>A registration of a repository id and path that is in the deferred list changes
  neither the registry nor the deferred list nor the watcher's set.\<close>

lemma watchCachedFile_deferred:
  assumes "\<exists>d \<in> set (deleted_files_infos s). repo_id d = rid \<and> path_in_repo d = p"
  shows "watch_infos (watchCachedFile env acc rid p s) = watch_infos s"
    and "deleted_files_infos (watchCachedFile env acc rid p s) = deleted_files_infos s"
    and "watcher_files (watchCachedFile env acc rid p s) = watcher_files s"
proof -
  have "in_deferred_list rid p (deleted_files_infos s)"
    using assms by (simp add: in_deferred_list_iff)
  then show "watch_infos (watchCachedFile env acc rid p s) = watch_infos s"
    and "deleted_files_infos (watchCachedFile env acc rid p s) = deleted_files_infos s"
    and "watcher_files (watchCachedFile env acc rid p s) = watcher_files s"
    by (simp_all add: watchCachedFile_def Let_def)
qed

section \<open>The claims\<close>

subsection \<open>C1: the watch set and the registry\<close>

text \<open>
  Claim C1 says that a path is in the watcher's set exactly when it has a registry entry,
  and in particular that every operation that removes a registry entry also disarms the
  subscription. \<^verbatim>\<open>removeWatch\<close> does both; the loop of \<^verbatim>\<open>cleanCachedFile\<close> calls
  \<^verbatim>\<open>watch_infos_.remove(key)\<close> alone. Evaluated on the history that registers
  \<^verbatim>\<open>/a.txt\<close> for the current account and then cleans that account: the registry is
  empty and the watcher still holds the path, whereas \<^verbatim>\<open>removeWatch\<close> from the same state
  leaves the watcher empty.
\<close>

theorem cleanCachedFile_leaves_subscription_armed:
  "watch_infos (run [WatchCachedFile desktop_env ''alice'' ''r1'' ''/a.txt'',
                     CleanCachedFile desktop_env] empty_State) = []
   \<and> watcher_files (run [WatchCachedFile desktop_env ''alice'' ''r1'' ''/a.txt'',
                     CleanCachedFile desktop_env] empty_State) = [''/cache/r1/a.txt'']
   \<and> watch_infos (run [WatchCachedFile desktop_env ''alice'' ''r1'' ''/a.txt'',
                     RemoveWatch desktop_env ''/cache/r1/a.txt''] empty_State) = []
   \<and> watcher_files (run [WatchCachedFile desktop_env ''alice'' ''r1'' ''/a.txt'',
                     RemoveWatch desktop_env ''/cache/r1/a.txt''] empty_State) = []"
  by (simp add: model_defs fixture_defs)

subsection \<open>C2: what cleanCachedFile cancels\<close>

text \<open>
  Claim C2 as stated (the clean-all operation cancels the uploads in flight for the
  current account) fails: with an upload of \<^verbatim>\<open>/cache/r1/a.txt\<close> started for the
  current account and not yet finished (its entry is marked uploading), the calls of
  \<^verbatim>\<open>cleanCachedFile\<close> are the log line, the bulk cancel of the download tasks, the
  cleaning of the file cache and the start of the cleaner. Nothing is asked of the
  started upload.
\<close>

theorem cleanCachedFile_upload_not_cancelled:
  "currentAccount desktop_env = ''alice''
   \<and> map_of (watch_infos (run [WatchCachedFile desktop_env ''alice'' ''r1'' ''/a.txt'',
                                 OnFileChanged desktop_env ''/cache/r1/a.txt''] empty_State))
        ''/cache/r1/a.txt''
        = Some \<lparr>account = ''alice'', repo_id = ''r1'', path_in_repo = ''/a.txt'',
                  uploading = True\<rparr>
   \<and> trace (run [WatchCachedFile desktop_env ''alice'' ''r1'' ''/a.txt'',
               OnFileChanged desktop_env ''/cache/r1/a.txt'',
               CleanCachedFile desktop_env] empty_State) =
     [QDebug ''[AutoUpdateManager] watch cache file /cache/r1/a.txt'',
      QDebug ''[AutoUpdateManager] detected cache file /cache/r1/a.txt changed'',
      CreateUploadTask ''alice'' ''r1'' ''/'' ''/cache/r1/a.txt'' ''a.txt'' True,
      ConnectFinished ''/cache/r1/a.txt'',
      QDebug ''[AutoUpdateManager] start uploading new version of file /cache/r1/a.txt'',
      TaskStart ''/cache/r1/a.txt'',
      QDebug ''[AutoUpdateManager] cancel all download tasks'',
      CancelAllDownloadTasks,
      CleanCurrentAccountCache,
      StartCachedFilesCleaner]"
  by (simp add: model_defs fixture_defs)

text \<open>
  Claim C2, amended: \<^verbatim>\<open>cleanCachedFile\<close> asks the transfer manager to cancel all download
  tasks (one bulk call, not scoped to an account, and no call about uploads), cleans the
  file cache of the current account, starts the cleaner, and leaves no registry entry
  whose account is the current one.
\<close>

theorem cleanCachedFile_cancels_downloads:
  "trace (cleanCachedFile env s) = trace s @
     [QDebug ''[AutoUpdateManager] cancel all download tasks'', CancelAllDownloadTasks,
      CleanCurrentAccountCache, StartCachedFilesCleaner]
   \<and> (\<forall>k i. map_of (watch_infos (cleanCachedFile env s)) k = Some i \<longrightarrow>
         account i \<noteq> currentAccount env)"
  by (auto simp: cleanCachedFile_frame cleanCachedFile_map_of split: option.splits if_splits)

theorem cleanCachedFile_cancels_downloads_witness:
  "trace (cleanCachedFile desktop_env uploading_State) =
     [QDebug ''[AutoUpdateManager] cancel all download tasks'', CancelAllDownloadTasks,
      CleanCurrentAccountCache, StartCachedFilesCleaner]
   \<and> map_of (watch_infos (cleanCachedFile desktop_env uploading_State)) ''/cache/r2/b.txt''
        = Some info_b
   \<and> account info_b \<noteq> currentAccount desktop_env
   \<and> map_of (watch_infos (cleanCachedFile desktop_env uploading_State)) ''/cache/r1/a.txt'' = None"
  using cleanCachedFile_cancels_downloads [of desktop_env uploading_State]
  by (simp add: model_defs fixture_defs)

subsection \<open>C3: the order of suppression and disarming\<close>

text \<open>
  Claim C3 as stated (the subscription is disarmed first, before the recently-opened
  predicate is consulted) fails: on the macOS build, for a file opened as an image five
  seconds ago, \<^verbatim>\<open>onFileChanged\<close> returns with the path still in the watcher's set.
\<close>

theorem onFileChanged_recent_image_stays_armed:
  "q_os_mac mac_env
   \<and> isRecentOpenedImage mac_env ''/cache/r1/a.txt''
   \<and> ''/cache/r1/a.txt'' \<in> set (watcher_files watching_State)
   \<and> ''/cache/r1/a.txt'' \<in>
        set (watcher_files (onFileChanged mac_env ''/cache/r1/a.txt'' watching_State))
   \<and> watcher_files (onFileChanged mac_env ''/cache/r1/a.txt'' watching_State)
        = watcher_files watching_State"
  by (simp add: model_defs fixture_defs)

text \<open>
  Claim C3, amended: on the macOS build the recently-opened predicate is consulted first,
  and when it holds the handler returns after its log line with nothing disarmed.
  Otherwise (the predicate fails, or the build has no such hook) the subscription is
  disarmed before the registry is looked up: the watcher's set is that of \<^verbatim>\<open>removePath\<close>
  whatever the registry holds, the path is out of the set when the watcher accepts the
  removal, and for a path without registry entry the disarming is all that happens.
\<close>

theorem onFileChanged_suppression_first:
  "(q_os_mac env \<and> isRecentOpenedImage env lp \<longrightarrow>
      onFileChanged env lp s =
        emit (QDebug (''[AutoUpdateManager] detected cache file '' @ lp @ '' changed'')) s)
   \<and> (\<not> (q_os_mac env \<and> isRecentOpenedImage env lp) \<longrightarrow>
        watcher_files (onFileChanged env lp s) = watcher_files (snd (removePath env lp s))
        \<and> (watcher_removePath env lp \<longrightarrow> lp \<notin> set (watcher_files (onFileChanged env lp s)))
        \<and> (map_of (watch_infos s) lp = None \<longrightarrow>
             onFileChanged env lp s =
               snd (removePath env lp
                 (emit (QDebug (''[AutoUpdateManager] detected cache file '' @ lp @ '' changed'')) s))))"
  using onFileChanged_unregistered [of env lp s]
  by (auto simp: onFileChanged_suppressed onFileChanged_watcher removePath_files)

theorem onFileChanged_suppression_first_witness:
  "q_os_mac mac_env
   \<and> isRecentOpenedImage mac_env ''/cache/r1/a.txt''
   \<and> onFileChanged mac_env ''/cache/r1/a.txt'' watching_State =
        emit (QDebug ''[AutoUpdateManager] detected cache file /cache/r1/a.txt changed'')
          watching_State
   \<and> \<not> q_os_mac desktop_env
   \<and> watcher_removePath desktop_env ''/cache/r1/a.txt''
   \<and> ''/cache/r1/a.txt'' \<notin>
        set (watcher_files (onFileChanged desktop_env ''/cache/r1/a.txt'' watching_State))
   \<and> map_of (watch_infos empty_State) ''/cache/r2/b.txt'' = None
   \<and> onFileChanged desktop_env ''/cache/r2/b.txt'' empty_State =
        snd (removePath desktop_env ''/cache/r2/b.txt''
          (emit (QDebug ''[AutoUpdateManager] detected cache file /cache/r2/b.txt changed'')
             empty_State))"
  using onFileChanged_suppression_first [of mac_env "''/cache/r1/a.txt''" watching_State]
    onFileChanged_suppression_first [of desktop_env "''/cache/r1/a.txt''" watching_State]
    onFileChanged_suppression_first [of desktop_env "''/cache/r2/b.txt''" empty_State]
  by (simp add: model_defs fixture_defs)

subsection \<open>C4: a change notification for a file that is gone\<close>

text \<open>
  Claim C4 as stated (for every registered path whose file no longer exists the handler
  removes the entry, disarms, defers and schedules the re-check) fails on the macOS
  build: for a registered picture that was opened four seconds ago and is gone now,
  \<^verbatim>\<open>onFileChanged\<close> returns after its log line. The entry is still in the registry, the
  path is still in the watcher's set, the deferred list is empty and no timer is set.
\<close>

theorem onFileChanged_file_gone_recent_image:
  "q_os_mac mac_image_gone_env
   \<and> isRecentOpenedImage mac_image_gone_env ''/cache/r1/pic.png''
   \<and> map_of (watch_infos picture_State) ''/cache/r1/pic.png'' = Some info_pic
   \<and> \<not> file_exists mac_image_gone_env ''/cache/r1/pic.png''
   \<and> map_of (watch_infos (onFileChanged mac_image_gone_env ''/cache/r1/pic.png'' picture_State))
        ''/cache/r1/pic.png'' = Some info_pic
   \<and> watcher_files (onFileChanged mac_image_gone_env ''/cache/r1/pic.png'' picture_State)
        = [''/cache/r1/pic.png'']
   \<and> deleted_files_infos (onFileChanged mac_image_gone_env ''/cache/r1/pic.png'' picture_State)
        = []
   \<and> trace (onFileChanged mac_image_gone_env ''/cache/r1/pic.png'' picture_State)
        = [QDebug ''[AutoUpdateManager] detected cache file /cache/r1/pic.png changed'']"
  by (simp add: model_defs fixture_defs)

text \<open>
  Claim C4, amended: for a registered path whose file no longer exists, on the macOS
  build with the path recently opened as an image or PDF the handler returns after its
  log line and changes nothing else. In every other case it removes the entry from the
  registry and leaves every other entry alone, asks the watcher to disarm the path (the
  path is out of the watcher's set unless the watcher refuses the removal, and each
  refusal is logged as a warning), appends the entry at the tail of the deferred list,
  and schedules one single-shot timer of 5000 ms. Apart from those warnings its calls
  are two log lines and the timer: no upload is created or started.
\<close>

theorem onFileChanged_file_gone:
  assumes "map_of (watch_infos s) lp = Some info"
    and "\<not> file_exists env lp"
  shows "(q_os_mac env \<and> isRecentOpenedImage env lp \<longrightarrow>
           onFileChanged env lp s =
             emit (QDebug (''[AutoUpdateManager] detected cache file '' @ lp @ '' changed'')) s)
       \<and> (\<not> (q_os_mac env \<and> isRecentOpenedImage env lp) \<longrightarrow>
            map_of (watch_infos (onFileChanged env lp s)) lp = None
          \<and> (\<forall>k. k \<noteq> lp \<longrightarrow>
               map_of (watch_infos (onFileChanged env lp s)) k = map_of (watch_infos s) k)
          \<and> watcher_files (onFileChanged env lp s) =
               (if lp \<in> set (watcher_files s) \<and> \<not> watcher_removePath env lp
                then watcher_files s else removeAll lp (watcher_files s))
          \<and> deleted_files_infos (onFileChanged env lp s) = deleted_files_infos s @ [info]
          \<and> trace (onFileChanged env lp s) = trace s @
               [QDebug (''[AutoUpdateManager] detected cache file '' @ lp @ '' changed'')] @
               (if lp \<in> set (watcher_files s) \<and> \<not> watcher_removePath env lp
                then [QWarning (''[AutoUpdateManager] failed to remove watch on cache file '' @ lp)]
                else []) @
               [QDebug (''[AutoUpdateManager] detected cache file '' @ lp
                         @ '' renamed or removed'')] @
               (if lp \<in> set (watcher_files s) \<and> \<not> watcher_removePath env lp
                then [QWarning (''[AutoUpdateManager] failed to remove watch on cache file '' @ lp)]
                else []) @
               [SingleShot 5000])"
proof (cases "q_os_mac env \<and> isRecentOpenedImage env lp")
  case True
  then show ?thesis by (simp add: onFileChanged_suppressed)
next
  case False
  from onFileChanged_missing [OF False assms] False
  show ?thesis by auto
qed

theorem onFileChanged_file_gone_witness:
  "map_of (watch_infos watching_State) ''/cache/r1/a.txt'' = Some info_a
   \<and> \<not> file_exists gone_env ''/cache/r1/a.txt''
   \<and> \<not> q_os_mac gone_env
   \<and> map_of (watch_infos (onFileChanged gone_env ''/cache/r1/a.txt'' watching_State))
        ''/cache/r1/a.txt'' = None
   \<and> map_of (watch_infos (onFileChanged gone_env ''/cache/r1/a.txt'' watching_State))
        ''/cache/r2/b.txt'' = Some info_b
   \<and> watcher_files (onFileChanged gone_env ''/cache/r1/a.txt'' watching_State)
        = [''/cache/r2/b.txt'']
   \<and> deleted_files_infos (onFileChanged gone_env ''/cache/r1/a.txt'' watching_State) = [info_a]
   \<and> trace (onFileChanged gone_env ''/cache/r1/a.txt'' watching_State) =
        [QDebug ''[AutoUpdateManager] detected cache file /cache/r1/a.txt changed'',
         QDebug ''[AutoUpdateManager] detected cache file /cache/r1/a.txt renamed or removed'',
         SingleShot 5000]
   \<and> \<not> file_exists refusing_gone_env ''/cache/r1/a.txt''
   \<and> \<not> q_os_mac refusing_gone_env
   \<and> map_of (watch_infos (onFileChanged refusing_gone_env ''/cache/r1/a.txt'' watching_State))
        ''/cache/r1/a.txt'' = None
   \<and> watcher_files (onFileChanged refusing_gone_env ''/cache/r1/a.txt'' watching_State)
        = [''/cache/r1/a.txt'', ''/cache/r2/b.txt'']
   \<and> deleted_files_infos (onFileChanged refusing_gone_env ''/cache/r1/a.txt'' watching_State)
        = [info_a]
   \<and> trace (onFileChanged refusing_gone_env ''/cache/r1/a.txt'' watching_State) =
        [QDebug ''[AutoUpdateManager] detected cache file /cache/r1/a.txt changed'',
         QWarning ''[AutoUpdateManager] failed to remove watch on cache file /cache/r1/a.txt'',
         QDebug ''[AutoUpdateManager] detected cache file /cache/r1/a.txt renamed or removed'',
         QWarning ''[AutoUpdateManager] failed to remove watch on cache file /cache/r1/a.txt'',
         SingleShot 5000]
   \<and> map_of (watch_infos picture_State) ''/cache/r1/pic.png'' = Some info_pic
   \<and> \<not> file_exists mac_image_gone_env ''/cache/r1/pic.png''
   \<and> q_os_mac mac_image_gone_env
   \<and> isRecentOpenedImage mac_image_gone_env ''/cache/r1/pic.png''
   \<and> onFileChanged mac_image_gone_env ''/cache/r1/pic.png'' picture_State =
        emit (QDebug ''[AutoUpdateManager] detected cache file /cache/r1/pic.png changed'')
          picture_State"
  using onFileChanged_file_gone
      [where s = watching_State and lp = "''/cache/r1/a.txt''" and info = info_a
         and env = gone_env]
    onFileChanged_file_gone
      [where s = watching_State and lp = "''/cache/r1/a.txt''" and info = info_a
         and env = refusing_gone_env]
    onFileChanged_file_gone
      [where s = picture_State and lp = "''/cache/r1/pic.png''" and info = info_pic
         and env = mac_image_gone_env]
  by (simp add: model_defs fixture_defs)

subsection \<open>C5: the delayed re-check\<close>

text \<open>
  Claim C5 as stated (if the file exists again, the re-check re-registers the entry and
  an upload with the overwrite flag starts immediately) fails on the macOS build: for
  a deferred picture that exists again and was opened four seconds ago,
  \<^verbatim>\<open>checkFileRecreated\<close> puts the entry back into the registry and arms the path, and
  the replayed \<^verbatim>\<open>onFileChanged\<close> returns after its log line. No upload is created, and
  the entry is not marked uploading.
\<close>

theorem checkFileRecreated_recent_image_no_upload:
  "deleted_files_infos picture_deferred_State = [info_pic]
   \<and> getLocalCacheFilePath mac_image_env (repo_id info_pic) (path_in_repo info_pic)
        = ''/cache/r1/pic.png''
   \<and> file_exists mac_image_env ''/cache/r1/pic.png''
   \<and> q_os_mac mac_image_env
   \<and> isRecentOpenedImage mac_image_env ''/cache/r1/pic.png''
   \<and> watch_infos (checkFileRecreated mac_image_env picture_deferred_State)
        = [(''/cache/r1/pic.png'', info_pic)]
   \<and> uploading info_pic = False
   \<and> watcher_files (checkFileRecreated mac_image_env picture_deferred_State)
        = [''/cache/r1/pic.png'']
   \<and> deleted_files_infos (checkFileRecreated mac_image_env picture_deferred_State) = []
   \<and> trace (checkFileRecreated mac_image_env picture_deferred_State) =
        [QDebug ''[AutoUpdateManager] detected recreated file /cache/r1/pic.png'',
         QDebug ''[AutoUpdateManager] detected cache file /cache/r1/pic.png changed'']"
  by (simp add: model_defs fixture_defs)

text \<open>
  Claim C5, amended: a firing of \<^verbatim>\<open>checkFileRecreated\<close> on a non-empty deferred list
  removes exactly its head and recomputes the local cache path of that entry. If the
  file is still missing, nothing else changes: the entry is dropped and no timer is
  scheduled. If the file exists, the result is that of \<^verbatim>\<open>onFileChanged\<close> on the state
  in which the entry is back in the registry under that path and the path is armed (it
  is in the watcher's set already, or the watcher accepts it). On the macOS build with
  the path recently opened as an image or PDF that replayed notification is discarded:
  the entry stays registered, not uploading, and no upload is created. In every other
  case the entry is marked uploading and exactly one upload task is created, with the
  overwrite flag set, and started, whatever the watcher answers (its refusals are
  logged as warnings).
\<close>

theorem checkFileRecreated_oldest_entry:
  assumes "deleted_files_infos s = info # rest"
    and "p = getLocalCacheFilePath env (repo_id info) (path_in_repo info)"
  shows "deleted_files_infos (checkFileRecreated env s) = rest
       \<and> (\<not> file_exists env p \<longrightarrow> checkFileRecreated env s = s\<lparr>deleted_files_infos := rest\<rparr>)
       \<and> (file_exists env p \<longrightarrow>
            (\<exists>mid. checkFileRecreated env s = onFileChanged env p mid
               \<and> map_of (watch_infos mid) = (map_of (watch_infos s))(p \<mapsto> info)
               \<and> deleted_files_infos mid = rest
               \<and> (p \<in> set (watcher_files s) \<or> watcher_addPath env p \<longrightarrow>
                    p \<in> set (watcher_files mid))))
       \<and> (file_exists env p \<and> q_os_mac env \<and> isRecentOpenedImage env p \<longrightarrow>
            map_of (watch_infos (checkFileRecreated env s)) = (map_of (watch_infos s))(p \<mapsto> info)
            \<and> trace (checkFileRecreated env s) = trace s @
                [QDebug (''[AutoUpdateManager] detected recreated file '' @ p)] @
                (if p \<in> set (watcher_files s) \<or> watcher_addPath env p then []
                 else [QWarning (''[AutoUpdateManager] failed to watch cache file '' @ p)]) @
                [QDebug (''[AutoUpdateManager] detected cache file '' @ p @ '' changed'')])
       \<and> (file_exists env p \<and> \<not> (q_os_mac env \<and> isRecentOpenedImage env p) \<longrightarrow>
            map_of (watch_infos (checkFileRecreated env s)) =
              (map_of (watch_infos s))(p \<mapsto> info\<lparr>uploading := True\<rparr>)
            \<and> trace (checkFileRecreated env s) = trace s @
                [QDebug (''[AutoUpdateManager] detected recreated file '' @ p)] @
                (if p \<in> set (watcher_files s) \<or> watcher_addPath env p then []
                 else [QWarning (''[AutoUpdateManager] failed to watch cache file '' @ p)]) @
                [QDebug (''[AutoUpdateManager] detected cache file '' @ p @ '' changed'')] @
                (if (p \<in> set (watcher_files s) \<or> watcher_addPath env p)
                    \<and> \<not> watcher_removePath env p
                 then [QWarning (''[AutoUpdateManager] failed to remove watch on cache file '' @ p)]
                 else []) @
                [CreateUploadTask (account info) (repo_id info)
                   (getParentPath env (path_in_repo info)) p (getBaseName env p) True,
                 ConnectFinished p,
                 QDebug (''[AutoUpdateManager] start uploading new version of file '' @ p),
                 TaskStart p])"
proof (cases "file_exists env p")
  case False
  then show ?thesis
    using assms by (simp add: checkFileRecreated_cases)
next
  case True
  let ?mid = "reregistered env info rest s"
  have routed: "checkFileRecreated env s = onFileChanged env p ?mid"
    using assms True by (simp add: checkFileRecreated_cases)
  have reg: "map_of (watch_infos ?mid) = (map_of (watch_infos s))(p \<mapsto> info)"
    and que: "deleted_files_infos ?mid = rest"
    using assms(2) by (simp_all add: reregistered_fields)
  have arm: "p \<in> set (watcher_files ?mid) \<longleftrightarrow> p \<in> set (watcher_files s) \<or> watcher_addPath env p"
    using assms(2) by (auto simp: reregistered_fields Let_def)
  have mid_trace: "trace ?mid = trace s @
      [QDebug (''[AutoUpdateManager] detected recreated file '' @ p)] @
      (if p \<in> set (watcher_files s) \<or> watcher_addPath env p then []
       else [QWarning (''[AutoUpdateManager] failed to watch cache file '' @ p)])"
    using assms(2) by (simp add: reregistered_fields Let_def)
  have tail: "deleted_files_infos (checkFileRecreated env s) = rest"
    using True reg que by (simp add: routed onFileChanged_deferred)
  show ?thesis
  proof (cases "q_os_mac env \<and> isRecentOpenedImage env p")
    case mac: True
    then have "checkFileRecreated env s =
        emit (QDebug (''[AutoUpdateManager] detected cache file '' @ p @ '' changed'')) ?mid"
      by (simp add: routed onFileChanged_suppressed)
    then have "map_of (watch_infos (checkFileRecreated env s)) = (map_of (watch_infos s))(p \<mapsto> info)"
      and "trace (checkFileRecreated env s) = trace s @
            [QDebug (''[AutoUpdateManager] detected recreated file '' @ p)] @
            (if p \<in> set (watcher_files s) \<or> watcher_addPath env p then []
             else [QWarning (''[AutoUpdateManager] failed to watch cache file '' @ p)]) @
            [QDebug (''[AutoUpdateManager] detected cache file '' @ p @ '' changed'')]"
      by (simp_all add: reg mid_trace)
    then show ?thesis
      using True mac routed reg que arm tail by blast
  next
    case other: False
    have up: "map_of (watch_infos (checkFileRecreated env s)) =
              (map_of (watch_infos s))(p \<mapsto> info\<lparr>uploading := True\<rparr>)"
      using other True reg by (auto simp: routed onFileChanged_registry)
    have here: "map_of (watch_infos ?mid) p = Some info" by (simp add: reg)
    have tr: "trace (checkFileRecreated env s) = trace s @
                [QDebug (''[AutoUpdateManager] detected recreated file '' @ p)] @
                (if p \<in> set (watcher_files s) \<or> watcher_addPath env p then []
                 else [QWarning (''[AutoUpdateManager] failed to watch cache file '' @ p)]) @
                [QDebug (''[AutoUpdateManager] detected cache file '' @ p @ '' changed'')] @
                (if (p \<in> set (watcher_files s) \<or> watcher_addPath env p)
                    \<and> \<not> watcher_removePath env p
                 then [QWarning (''[AutoUpdateManager] failed to remove watch on cache file '' @ p)]
                 else []) @
                [CreateUploadTask (account info) (repo_id info)
                   (getParentPath env (path_in_repo info)) p (getBaseName env p) True,
                 ConnectFinished p,
                 QDebug (''[AutoUpdateManager] start uploading new version of file '' @ p),
                 TaskStart p]"
      using onFileChanged_upload_trace [OF other here True] arm
      by (simp add: routed removePath_trace mid_trace)
    show ?thesis
      using True other routed reg que arm tail up tr by blast
  qed
qed

theorem checkFileRecreated_oldest_entry_witness:
  "deleted_files_infos deferred_State = [info_a]
   \<and> \<not> file_exists gone_env ''/cache/r1/a.txt''
   \<and> checkFileRecreated gone_env deferred_State = deferred_State\<lparr>deleted_files_infos := []\<rparr>
   \<and> file_exists desktop_env ''/cache/r1/a.txt''
   \<and> \<not> q_os_mac desktop_env
   \<and> deleted_files_infos (checkFileRecreated desktop_env deferred_State) = []
   \<and> map_of (watch_infos (checkFileRecreated desktop_env deferred_State)) ''/cache/r1/a.txt''
        = Some (info_a\<lparr>uploading := True\<rparr>)
   \<and> trace (checkFileRecreated desktop_env deferred_State) =
        [QDebug ''[AutoUpdateManager] detected recreated file /cache/r1/a.txt'',
         QDebug ''[AutoUpdateManager] detected cache file /cache/r1/a.txt changed'',
         CreateUploadTask ''alice'' ''r1'' ''/'' ''/cache/r1/a.txt'' ''a.txt'' True,
         ConnectFinished ''/cache/r1/a.txt'',
         QDebug ''[AutoUpdateManager] start uploading new version of file /cache/r1/a.txt'',
         TaskStart ''/cache/r1/a.txt'']
   \<and> file_exists refusing_env ''/cache/r1/a.txt''
   \<and> \<not> q_os_mac refusing_env
   \<and> map_of (watch_infos (checkFileRecreated refusing_env deferred_State)) ''/cache/r1/a.txt''
        = Some (info_a\<lparr>uploading := True\<rparr>)
   \<and> trace (checkFileRecreated refusing_env deferred_State) =
        [QDebug ''[AutoUpdateManager] detected recreated file /cache/r1/a.txt'',
         QWarning ''[AutoUpdateManager] failed to watch cache file /cache/r1/a.txt'',
         QDebug ''[AutoUpdateManager] detected cache file /cache/r1/a.txt changed'',
         CreateUploadTask ''alice'' ''r1'' ''/'' ''/cache/r1/a.txt'' ''a.txt'' True,
         ConnectFinished ''/cache/r1/a.txt'',
         QDebug ''[AutoUpdateManager] start uploading new version of file /cache/r1/a.txt'',
         TaskStart ''/cache/r1/a.txt'']
   \<and> deleted_files_infos picture_deferred_State = [info_pic]
   \<and> file_exists mac_image_env ''/cache/r1/pic.png''
   \<and> q_os_mac mac_image_env
   \<and> isRecentOpenedImage mac_image_env ''/cache/r1/pic.png''
   \<and> map_of (watch_infos (checkFileRecreated mac_image_env picture_deferred_State))
        ''/cache/r1/pic.png'' = Some info_pic
   \<and> trace (checkFileRecreated mac_image_env picture_deferred_State) =
        [QDebug ''[AutoUpdateManager] detected recreated file /cache/r1/pic.png'',
         QDebug ''[AutoUpdateManager] detected cache file /cache/r1/pic.png changed'']"
  using checkFileRecreated_oldest_entry
      [where s = deferred_State and info = info_a and rest = "[]"
         and p = "''/cache/r1/a.txt''" and env = gone_env]
    checkFileRecreated_oldest_entry
      [where s = deferred_State and info = info_a and rest = "[]"
         and p = "''/cache/r1/a.txt''" and env = desktop_env]
    checkFileRecreated_oldest_entry
      [where s = deferred_State and info = info_a and rest = "[]"
         and p = "''/cache/r1/a.txt''" and env = refusing_env]
    checkFileRecreated_oldest_entry
      [where s = picture_deferred_State and info = info_pic and rest = "[]"
         and p = "''/cache/r1/pic.png''" and env = mac_image_env]
  by (simp add: model_defs fixture_defs)

subsection \<open>C6: registering a file that is not in the cache\<close>

text \<open>
  Claim C6: when the resolved local cache path does not exist, \<^verbatim>\<open>watchCachedFile\<close>
  returns with the registry, the watcher's set and the deferred list unchanged; all it
  does is write its debug line and one warning.
\<close>

theorem watchCachedFile_non_existent:
  assumes "\<not> file_exists env (getLocalCacheFilePath env rid p)"
  shows "watch_infos (watchCachedFile env acc rid p s) = watch_infos s
       \<and> watcher_files (watchCachedFile env acc rid p s) = watcher_files s
       \<and> deleted_files_infos (watchCachedFile env acc rid p s) = deleted_files_infos s
       \<and> trace (watchCachedFile env acc rid p s) = trace s @
           [QDebug (''[AutoUpdateManager] watch cache file '' @ getLocalCacheFilePath env rid p),
            QWarning (''[AutoUpdateManager] unable to watch non-existent cache file ''
                       @ getLocalCacheFilePath env rid p)]"
  using assms by (simp add: watchCachedFile_def Let_def)

theorem watchCachedFile_non_existent_witness:
  "\<not> file_exists gone_env (getLocalCacheFilePath gone_env ''r1'' ''/a.txt'')
   \<and> watch_infos (watchCachedFile gone_env ''alice'' ''r1'' ''/a.txt'' empty_State) = []
   \<and> watcher_files (watchCachedFile gone_env ''alice'' ''r1'' ''/a.txt'' empty_State) = []
   \<and> deleted_files_infos (watchCachedFile gone_env ''alice'' ''r1'' ''/a.txt'' empty_State) = []
   \<and> trace (watchCachedFile gone_env ''alice'' ''r1'' ''/a.txt'' empty_State) =
        [QDebug ''[AutoUpdateManager] watch cache file /cache/r1/a.txt'',
         QWarning ''[AutoUpdateManager] unable to watch non-existent cache file /cache/r1/a.txt'']"
  using watchCachedFile_non_existent [of gone_env "''r1''" "''/a.txt''" "''alice''" empty_State]
  by (simp add: fixture_defs)

subsection \<open>C7: registering a file that is in the deferred list\<close>

text \<open>
  Claim C7 says that a registration of a repository id and path that is in the deferred
  list is ignored, and hence that no repository id and path ever has a registry entry
  and a deferred entry at once. The first part holds (\<open>watchCachedFile_deferred\<close>). The
  second breaks where the success branch of \<^verbatim>\<open>onUpdateTaskFinished\<close> reads
  \<^verbatim>\<open>watch_infos_[local_path]\<close> without asking \<^verbatim>\<open>contains\<close> first, as \<^verbatim>\<open>onFileChanged\<close>
  does. Evaluated on this history: two uploads are in flight when the account is
  cleaned; both succeed afterwards, and each success inserts a default-constructed
  entry, with empty repository id and path, under its local path; then the first file
  disappears and its entry moves to the deferred list. The empty repository id and path
  now has a registry entry and a deferred entry. It is the only one that can
  (\<open>pair_in_both_is_empty\<close>).
\<close>

theorem stale_success_pair_in_both:
  "watch_infos (run stale_success_calls empty_State)
     = [(''/cache/r1/c.txt'', default_WatchedFileInfo)]
   \<and> deleted_files_infos (run stale_success_calls empty_State) = [default_WatchedFileInfo]
   \<and> pair_in_both (run stale_success_calls empty_State)"
  by (simp add: model_defs fixture_defs pair_in_both_def same_pair_def)

subsection \<open>C8: the end of an upload\<close>

text \<open>
  Claim C8: when the callback of an upload fires with success, the local path is armed
  again (it is in the watcher's set already, or the watcher accepts it), the entry under the local path has its uploading
  flag cleared (an entry that was there keeps its other fields), and
  \<^verbatim>\<open>fileUpdated\<close> is emitted with the repository id and path of the finished upload.
  When it fires with failure, the entry is removed from the registry; the watcher's set
  and the deferred list are untouched, the only calls are a warning and the message to
  the user, so nothing is retried, and a later change notification for the path is
  dropped at the registry lookup.
\<close>

theorem onUpdateTaskFinished_outcomes:
  "(localFilePath task \<in> set (watcher_files s) \<or> watcher_addPath env (localFilePath task) \<longrightarrow>
      localFilePath task \<in> set (watcher_files (onUpdateTaskFinished env (Some task) True s)))
   \<and> (\<exists>i. map_of (watch_infos (onUpdateTaskFinished env (Some task) True s)) (localFilePath task)
              = Some i \<and> \<not> uploading i)
   \<and> (\<forall>i. map_of (watch_infos s) (localFilePath task) = Some i \<longrightarrow>
         map_of (watch_infos (onUpdateTaskFinished env (Some task) True s)) (localFilePath task)
           = Some (i\<lparr>uploading := False\<rparr>))
   \<and> FileUpdated (repoId task) (path task)
        \<in> set (trace (onUpdateTaskFinished env (Some task) True s))
   \<and> map_of (watch_infos (onUpdateTaskFinished env (Some task) False s)) (localFilePath task) = None
   \<and> watcher_files (onUpdateTaskFinished env (Some task) False s) = watcher_files s
   \<and> deleted_files_infos (onUpdateTaskFinished env (Some task) False s) = deleted_files_infos s
   \<and> trace (onUpdateTaskFinished env (Some task) False s) =
       trace s @
       [QWarning (''[AutoUpdateManager] failed to upload new version of file ''
                   @ localFilePath task),
        ShowMessage ''Upload Failure''
          (''File '' @ [CHR 0x22] @ fileName env (localFilePath task)
            @ [CHR 0x22, CHR 0x0A] @ ''failed to upload.'') (repoId task)]
   \<and> (\<not> (q_os_mac later \<and> isRecentOpenedImage later (localFilePath task)) \<longrightarrow>
        onFileChanged later (localFilePath task) (onUpdateTaskFinished env (Some task) False s) =
          snd (removePath later (localFilePath task)
            (emit (QDebug (''[AutoUpdateManager] detected cache file '' @ localFilePath task
                            @ '' changed''))
               (onUpdateTaskFinished env (Some task) False s))))"
proof -
  have "map_of (watch_infos (onUpdateTaskFinished env (Some task) False s)) (localFilePath task)
          = None"
    by (simp add: onUpdateTaskFinished_registry)
  from onFileChanged_unregistered [OF _ this, of later]
  show ?thesis
    by (simp add: onUpdateTaskFinished_registry onUpdateTaskFinished_deferred
        onUpdateTaskFinished_success onUpdateTaskFinished_failure addPath_files)
qed

theorem onUpdateTaskFinished_outcomes_witness:
  "watcher_addPath desktop_env (localFilePath task_a)
   \<and> ''/cache/r1/a.txt'' \<in>
        set (watcher_files (onUpdateTaskFinished desktop_env (Some task_a) True uploading_State))
   \<and> map_of (watch_infos uploading_State) ''/cache/r1/a.txt'' = Some (info_a\<lparr>uploading := True\<rparr>)
   \<and> map_of (watch_infos (onUpdateTaskFinished desktop_env (Some task_a) True uploading_State))
        ''/cache/r1/a.txt'' = Some info_a
   \<and> FileUpdated ''r1'' ''/''
        \<in> set (trace (onUpdateTaskFinished desktop_env (Some task_a) True uploading_State))
   \<and> map_of (watch_infos (onUpdateTaskFinished desktop_env (Some task_a) False uploading_State))
        ''/cache/r1/a.txt'' = None
   \<and> trace (onUpdateTaskFinished desktop_env (Some task_a) False uploading_State) =
        [QWarning ''[AutoUpdateManager] failed to upload new version of file /cache/r1/a.txt'',
         ShowMessage ''Upload Failure''
           (''File '' @ [CHR 0x22] @ ''a.txt'' @ [CHR 0x22, CHR 0x0A] @ ''failed to upload.'')
           ''r1'']
   \<and> \<not> q_os_mac desktop_env
   \<and> trace (onFileChanged desktop_env ''/cache/r1/a.txt''
        (onUpdateTaskFinished desktop_env (Some task_a) False uploading_State)) =
        [QWarning ''[AutoUpdateManager] failed to upload new version of file /cache/r1/a.txt'',
         ShowMessage ''Upload Failure''
           (''File '' @ [CHR 0x22] @ ''a.txt'' @ [CHR 0x22, CHR 0x0A] @ ''failed to upload.'')
           ''r1'',
         QDebug ''[AutoUpdateManager] detected cache file /cache/r1/a.txt changed'']"
  using onUpdateTaskFinished_outcomes
      [where env = desktop_env and task = task_a and s = uploading_State and later = desktop_env]
  by (simp add: model_defs fixture_defs)

subsection \<open>C9: cleaning touches the current account only\<close>

text \<open>
  Claim C9: \<^verbatim>\<open>cleanCachedFile\<close> removes from the registry exactly the entries of the
  current account. An entry of another account is still there under its key with the
  same value, an entry of the current account is gone, and no key is added.
\<close>

theorem cleanCachedFile_only_current_account:
  "(map_of (watch_infos s) k = Some i \<and> account i \<noteq> currentAccount env \<longrightarrow>
      map_of (watch_infos (cleanCachedFile env s)) k = Some i)
   \<and> (map_of (watch_infos s) k = Some i \<and> account i = currentAccount env \<longrightarrow>
      map_of (watch_infos (cleanCachedFile env s)) k = None)
   \<and> (map_of (watch_infos s) k = None \<longrightarrow>
      map_of (watch_infos (cleanCachedFile env s)) k = None)"
  by (simp add: cleanCachedFile_map_of)

theorem cleanCachedFile_only_current_account_witness:
  "map_of (watch_infos watching_State) ''/cache/r2/b.txt'' = Some info_b
   \<and> account info_b \<noteq> currentAccount desktop_env
   \<and> map_of (watch_infos (cleanCachedFile desktop_env watching_State)) ''/cache/r2/b.txt''
        = Some info_b
   \<and> map_of (watch_infos watching_State) ''/cache/r1/a.txt'' = Some info_a
   \<and> account info_a = currentAccount desktop_env
   \<and> map_of (watch_infos (cleanCachedFile desktop_env watching_State)) ''/cache/r1/a.txt'' = None
   \<and> map_of (watch_infos watching_State) ''/cache/r1/c.txt'' = None
   \<and> map_of (watch_infos (cleanCachedFile desktop_env watching_State)) ''/cache/r1/c.txt'' = None"
  using cleanCachedFile_only_current_account
      [of watching_State "''/cache/r2/b.txt''" info_b desktop_env]
    cleanCachedFile_only_current_account
      [of watching_State "''/cache/r1/a.txt''" info_a desktop_env]
    cleanCachedFile_only_current_account
      [of watching_State "''/cache/r1/c.txt''" info_a desktop_env]
  by (simp add: fixture_defs)

subsection \<open>C10: success for a path that is no longer registered\<close>

text \<open>
  Claim C10: when the callback of an upload fires with success for a local path that
  has no registry entry, the handler still arms the path (it is in the watcher's set
  already, or the watcher accepts it) and
  the registry afterwards holds a default-constructed entry under that path, with empty
  account, repository id and path.
\<close>

theorem onUpdateTaskFinished_default_insert:
  assumes "map_of (watch_infos s) (localFilePath task) = None"
  shows "map_of (watch_infos (onUpdateTaskFinished env (Some task) True s)) (localFilePath task)
           = Some default_WatchedFileInfo
       \<and> account default_WatchedFileInfo = []
       \<and> repo_id default_WatchedFileInfo = []
       \<and> path_in_repo default_WatchedFileInfo = []
       \<and> (localFilePath task \<in> set (watcher_files s) \<or> watcher_addPath env (localFilePath task)
            \<longrightarrow>
            localFilePath task \<in> set (watcher_files (onUpdateTaskFinished env (Some task) True s)))"
  using assms
  by (simp add: onUpdateTaskFinished_registry onUpdateTaskFinished_success addPath_files
      default_WatchedFileInfo_def)

theorem onUpdateTaskFinished_default_insert_witness:
  "map_of (watch_infos (cleanCachedFile desktop_env uploading_State)) (localFilePath task_a) = None
   \<and> watcher_addPath desktop_env (localFilePath task_a)
   \<and> watch_infos (onUpdateTaskFinished desktop_env (Some task_a) True
        (cleanCachedFile desktop_env uploading_State))
        = [(''/cache/r2/b.txt'', info_b), (''/cache/r1/a.txt'', default_WatchedFileInfo)]
   \<and> watcher_files (onUpdateTaskFinished desktop_env (Some task_a) True
        (cleanCachedFile desktop_env uploading_State))
        = [''/cache/r2/b.txt'', ''/cache/r1/a.txt'']"
  using onUpdateTaskFinished_default_insert
      [where s = "cleanCachedFile desktop_env uploading_State" and task = task_a
         and env = desktop_env]
  by (simp add: model_defs fixture_defs)

end
